theory Spec2Isabelle
  imports Complex_Main "HOL-Library.Char_ord" "HOL-Library.List_Lexorder"
    "HOL-Library.Product_Lexorder" "HOL-Library.Multiset"
begin

section \<open>The SystemInfo collection\<close>

text \<open>
  The backend keeps one MongoDB collection of SystemInfo documents
  (models/SystemInfo.js) and serves it through the Express router of
  routes/systemData.js. The collection is modelled as the list of its documents in
  insertion order; a Date is its time value, the number of milliseconds since the epoch;
  a JavaScript number is modelled by the rational it denotes (NaN is written out where a
  conversion can produce it, infinities and rounding of doubles are not modelled); a
  string is the list of the bytes of its UTF-8 encoding.
\<close>

record doc =
  doc_id :: nat
  pcId :: string
  cpu :: rat
  ram :: rat
  disk :: rat
  os :: string
  uptime :: rat
  createdAt :: int
  updatedAt :: int

type_synonym collection = "doc list"

text \<open>
  A query need not read the documents in insertion order: the storage engine hands them
  over in an order of its own choosing, of which insertion order is one, and a sort keeps
  documents with equal sort keys in the order in which it received them. The list that a
  query works on is therefore any list \<open>scan\<close> that holds the documents of the
  collection, \<open>delivers coll scan\<close>; what is stated of a query on an arbitrary list holds
  of every scan of every collection.
\<close>

definition delivers :: "collection \<Rightarrow> doc list \<Rightarrow> bool" where
  "delivers coll scan = (mset scan = mset coll)"

subsection \<open>White space\<close>

text \<open>
  \<open>String.prototype.trim\<close> and \<open>parseInt\<close> strip the code points of WhiteSpace and
  LineTerminator: U+0009 to U+000D, U+0020, U+00A0, U+1680, U+2000 to U+200A, U+2028,
  U+2029, U+202F, U+205F, U+3000 and U+FEFF, listed here by their UTF-8 encodings.
  \<open>space_len pats s\<close> is the length of the pattern that \<open>s\<close> starts with, 0 when there
  is none; \<open>skip_space\<close> drops such patterns as long as there is one. At the end of the
  string the same is done on the reversed string with the reversed patterns.
\<close>

definition white_space :: "string list" where
  "white_space =
     [[CHR 0x09], [CHR 0x0A], [CHR 0x0B], [CHR 0x0C], [CHR 0x0D], [CHR 0x20],
      [CHR 0xC2, CHR 0xA0],
      [CHR 0xE1, CHR 0x9A, CHR 0x80],
      [CHR 0xE2, CHR 0x80, CHR 0x80], [CHR 0xE2, CHR 0x80, CHR 0x81],
      [CHR 0xE2, CHR 0x80, CHR 0x82], [CHR 0xE2, CHR 0x80, CHR 0x83],
      [CHR 0xE2, CHR 0x80, CHR 0x84], [CHR 0xE2, CHR 0x80, CHR 0x85],
      [CHR 0xE2, CHR 0x80, CHR 0x86], [CHR 0xE2, CHR 0x80, CHR 0x87],
      [CHR 0xE2, CHR 0x80, CHR 0x88], [CHR 0xE2, CHR 0x80, CHR 0x89],
      [CHR 0xE2, CHR 0x80, CHR 0x8A],
      [CHR 0xE2, CHR 0x80, CHR 0xA8], [CHR 0xE2, CHR 0x80, CHR 0xA9],
      [CHR 0xE2, CHR 0x80, CHR 0xAF],
      [CHR 0xE2, CHR 0x81, CHR 0x9F],
      [CHR 0xE3, CHR 0x80, CHR 0x80],
      [CHR 0xEF, CHR 0xBB, CHR 0xBF]]"

definition space_len :: "string list \<Rightarrow> string \<Rightarrow> nat" where
  "space_len pats s =
     (case find (\<lambda>w. w \<noteq> [] \<and> take (length w) s = w) pats of
        None \<Rightarrow> 0
      | Some w \<Rightarrow> length w)"

function skip_space :: "string list \<Rightarrow> string \<Rightarrow> string" where
  "skip_space pats s =
     (if space_len pats s = 0 then s else skip_space pats (drop (space_len pats s) s))"
  by pat_completeness auto
termination
proof (relation "measure (\<lambda>(pats, s). length s)")
  show "wf (measure (\<lambda>(pats, s). length s))" by simp
next
  fix pats :: "string list" and s :: string
  assume "space_len pats s \<noteq> 0"
  then obtain w where "find (\<lambda>w. w \<noteq> [] \<and> take (length w) s = w) pats = Some w"
    by (auto simp: space_len_def split: option.splits)
  then have "w \<noteq> []" "take (length w) s = w"
    by (auto dest: find_Some_iff[THEN iffD1])
  then have "s \<noteq> []" by auto
  with \<open>space_len pats s \<noteq> 0\<close>
  show "((pats, drop (space_len pats s) s), (pats, s)) \<in> measure (\<lambda>(pats, s). length s)"
    by simp
qed

declare skip_space.simps [simp del]

definition js_trim :: "string \<Rightarrow> string" where
  "js_trim s = rev (skip_space (map rev white_space) (rev (skip_space white_space s)))"

subsection \<open>Indexes\<close>

text \<open>
  \<^verbatim>\<open>systemInfoSchema.index({ createdAt: 1 }, { expireAfterSeconds: 24 * 60 * 60 })\<close>
  declares a TTL index. The database removes, in a background pass that runs from time
  to time, every document whose \<open>createdAt\<close> lies \<open>expireAfterSeconds\<close> or more
  before the time of the pass. One pass at time \<open>now\<close> is \<open>ttl_pass now\<close>; between two
  passes the collection keeps what it holds.
\<close>

definition expireAfterSeconds :: int where
  "expireAfterSeconds = 24 * 60 * 60"

definition ttl_pass :: "int \<Rightarrow> collection \<Rightarrow> collection" where
  "ttl_pass now coll =
     filter (\<lambda>d. \<not> createdAt d \<le> now - expireAfterSeconds * 1000) coll"

subsection \<open>Static methods of the model\<close>

text \<open>
  \<open>getLatestData\<close> is the aggregation
  \<^verbatim>\<open>[{ $sort: { pcId: 1, createdAt: -1 } },
    { $group: { _id: '$pcId', latestData: { $first: '$$ROOT' } } },
    { $replaceRoot: { newRoot: '$latestData' } }]\<close>.
  The sort stage orders by \<open>pcId\<close> ascending (strings compare bytewise), then by
  \<open>createdAt\<close> descending. The pipeline has no further sort key: documents with equal
  keys leave the stage in the order in which the scan delivered them, so that every
  sorted arrangement of the collection is the output for some scan. The group stage
  emits, for every \<open>pcId\<close>, the first document of the sorted stream that carries it, in
  the order in which the groups are met.
\<close>

definition sort_stage :: "doc list \<Rightarrow> doc list" where
  "sort_stage scan = sort_key (\<lambda>d. (pcId d, - createdAt d)) scan"

fun group_first :: "doc list \<Rightarrow> doc list" where
  "group_first [] = []"
| "group_first (d # ds) = d # group_first (filter (\<lambda>x. pcId x \<noteq> pcId d) ds)"

definition getLatestData :: "doc list \<Rightarrow> doc list" where
  "getLatestData scan = group_first (sort_stage scan)"

text \<open>
  \<open>getHistoricalData(pcId, hours)\<close>: \<^verbatim>\<open>cutoff = new Date(Date.now() - hours * 60 * 60 * 1000)\<close>,
  then \<^verbatim>\<open>find({ pcId, createdAt: { $gte: cutoff } }).sort({ createdAt: 1 })\<close>.
  The filter of a \<open>find\<close> is cast by the schema: \<open>pcId\<close> has \<open>trim: true\<close>, so the
  documents are matched against the trimmed value.
\<close>

definition getHistoricalData :: "int \<Rightarrow> doc list \<Rightarrow> string \<Rightarrow> int \<Rightarrow> doc list" where
  "getHistoricalData now scan p hours =
     (let cutoff = now - hours * 60 * 60 * 1000
      in sort_key createdAt
           (filter (\<lambda>d. pcId d = js_trim p \<and> cutoff \<le> createdAt d) scan))"

text \<open>
  \<open>getOverviewStats()\<close> takes no argument: its cutoff is always 24 hours before now.
  \<open>$match\<close> keeps the documents at or after the cutoff; \<open>$group\<close> with \<open>_id: null\<close> yields
  no document for an empty input and one document otherwise, holding the averages and
  the set of the \<open>pcId\<close> values; \<open>$project\<close> rounds every average to two places (\<open>$round\<close>
  rounds a half to the even neighbour) and takes the size of the set. The average
  \<open>avg\<close> is taken of a group only, which is never empty.
\<close>

record overview =
  avgCpu :: rat
  avgRam :: rat
  avgDisk :: rat
  totalPCs :: nat

definition avg :: "rat list \<Rightarrow> rat" where
  "avg xs = sum_list xs / of_nat (length xs)"

definition round_half_even :: "rat \<Rightarrow> int" where
  "round_half_even x =
     (let f = \<lfloor>x\<rfloor>; r = x - of_int f
      in if r < 1 / 2 then f else if 1 / 2 < r then f + 1
         else if even f then f else f + 1)"

definition round2 :: "rat \<Rightarrow> rat" where
  "round2 x = of_int (round_half_even (x * 100)) / 100"

definition group_project :: "doc list \<Rightarrow> overview list" where
  "group_project ds =
     (if ds = [] then []
      else [\<lparr>avgCpu = round2 (avg (map cpu ds)),
             avgRam = round2 (avg (map ram ds)),
             avgDisk = round2 (avg (map disk ds)),
             totalPCs = length (remdups (map pcId ds))\<rparr>])"

definition getOverviewStats :: "int \<Rightarrow> doc list \<Rightarrow> overview list" where
  "getOverviewStats now scan =
     (let cutoff = now - 24 * 60 * 60 * 1000
      in group_project (filter (\<lambda>d. cutoff \<le> createdAt d) scan))"

text \<open>
  The schema defines the three statics above and no other. The router also calls
  \<open>SystemInfo.cleanupOldData\<close>; reading that property of the model yields \<open>undefined\<close>,
  written \<open>None\<close> here. A defined method would take the number of hours and resolve to
  a result with a \<open>deletedCount\<close>, leaving a new collection.
\<close>

definition cleanupOldData :: "(int \<Rightarrow> int \<Rightarrow> collection \<Rightarrow> nat \<times> collection) option" where
  "cleanupOldData = None"

text \<open>
  \<^verbatim>\<open>SystemInfo.findOne({ pcId }).sort({ createdAt: -1 })\<close>: the first document of the
  matching ones in descending order of \<open>createdAt\<close>, \<open>null\<close> when there is none. The
  filter is cast by the schema as above.
\<close>

definition findOne_latest :: "doc list \<Rightarrow> string \<Rightarrow> doc option" where
  "findOne_latest scan p =
     (case sort_key (\<lambda>d. - createdAt d) (filter (\<lambda>d. pcId d = js_trim p) scan) of
        [] \<Rightarrow> None
      | d # _ \<Rightarrow> Some d)"

section \<open>The router\<close>

subsection \<open>JavaScript values of a request\<close>

text \<open>
  A field of the JSON body is \<open>undefined\<close> when the key is absent, \<open>null\<close>, or a value
  of the type the client script sends (a string for \<open>pcId\<close> and \<open>os\<close>, a number for the
  four measurements). A query parameter is \<open>undefined\<close> or a string.
\<close>

datatype 'a field = Absent | Null | Val 'a

record post_body =
  body_pcId :: "string field"
  body_cpu :: "rat field"
  body_ram :: "rat field"
  body_disk :: "rat field"
  body_os :: "string field"
  body_uptime :: "rat field"

text \<open>\<open>!v\<close> on a string field: \<open>undefined\<close>, \<open>null\<close> and the empty string are falsy.\<close>

definition js_not :: "string field \<Rightarrow> bool" where
  "js_not v = (case v of Absent \<Rightarrow> True | Null \<Rightarrow> True | Val s \<Rightarrow> s = [])"

text \<open>\<open>v === undefined\<close>.\<close>

definition is_undefined :: "'a field \<Rightarrow> bool" where
  "is_undefined v = (case v of Absent \<Rightarrow> True | _ \<Rightarrow> False)"

text \<open>
  \<open>v < c\<close> and \<open>v > c\<close> convert \<open>v\<close> to a number first: \<open>undefined\<close> becomes NaN
  (\<open>None\<close>), \<open>null\<close> becomes 0; a comparison with NaN is false.
\<close>

definition to_number :: "rat field \<Rightarrow> rat option" where
  "to_number v = (case v of Absent \<Rightarrow> None | Null \<Rightarrow> Some 0 | Val x \<Rightarrow> Some x)"

definition js_lt :: "rat field \<Rightarrow> rat \<Rightarrow> bool" where
  "js_lt v c = (case to_number v of None \<Rightarrow> False | Some x \<Rightarrow> x < c)"

definition js_gt :: "rat field \<Rightarrow> rat \<Rightarrow> bool" where
  "js_gt v c = (case to_number v of None \<Rightarrow> False | Some x \<Rightarrow> c < x)"

text \<open>
  \<open>parseInt(s)\<close> without a radix: leading white space is skipped, a sign is read, the
  prefix \<open>0x\<close> or \<open>0X\<close> selects radix 16 (radix 10 otherwise), and the longest run of
  digits of the radix is the value; NaN (\<open>None\<close>) when that run is empty.
\<close>

definition digit_val :: "char \<Rightarrow> nat option" where
  "digit_val c =
     (let n = (of_char c :: nat)
      in if 48 \<le> n \<and> n \<le> 57 then Some (n - 48)
         else if 97 \<le> n \<and> n \<le> 122 then Some (n - 87)
         else if 65 \<le> n \<and> n \<le> 90 then Some (n - 55)
         else None)"

definition is_digit :: "nat \<Rightarrow> char \<Rightarrow> bool" where
  "is_digit radix c = (case digit_val c of None \<Rightarrow> False | Some v \<Rightarrow> v < radix)"

definition digits_value :: "nat \<Rightarrow> string \<Rightarrow> nat" where
  "digits_value radix z =
     foldl (\<lambda>a c. a * radix + (case digit_val c of None \<Rightarrow> 0 | Some v \<Rightarrow> v)) 0 z"

definition parseInt :: "string \<Rightarrow> int option" where
  "parseInt s =
     (let s1 = skip_space white_space s;
          sign = (case s1 of c # _ \<Rightarrow> if c = CHR ''-'' then - 1 else 1 | [] \<Rightarrow> (1::int));
          s2 = (case s1 of c # r \<Rightarrow> if c = CHR ''+'' \<or> c = CHR ''-'' then r else s1 | [] \<Rightarrow> s1);
          hex = (case s2 of a # b # _ \<Rightarrow> a = CHR ''0'' \<and> (b = CHR ''x'' \<or> b = CHR ''X'')
                  | _ \<Rightarrow> False);
          radix = (if hex then 16 else 10);
          s3 = (if hex then drop 2 s2 else s2);
          z = takeWhile (is_digit radix) s3
      in if z = [] then None else Some (sign * int (digits_value radix z)))"

text \<open>\<^verbatim>\<open>const { hours = 24 } = req.query; const hoursNum = parseInt(hours);\<close>\<close>

definition hoursNum_of :: "string option \<Rightarrow> int option" where
  "hoursNum_of hours = (case hours of None \<Rightarrow> Some 24 | Some s \<Rightarrow> parseInt s)"

subsection \<open>Responses\<close>

datatype js_error = TypeError | ValidationError

datatype payload =
    Message string
  | ServerError js_error
  | Saved nat string int
  | PcData string "doc option" "doc list" int
  | AllData "doc list" overview string
  | PcList "doc list" nat
  | Cleaned nat

record response =
  status :: nat
  payload :: payload

subsection \<open>Saving a document\<close>

text \<open>
  \<open>new SystemInfo({...})\<close> followed by \<open>save()\<close> runs the validators of the schema:
  every path is required; \<open>pcId\<close> is trimmed first; \<open>cpu\<close>, \<open>ram\<close> and \<open>disk\<close> have
  \<open>min: 0, max: 100\<close>; \<open>uptime\<close> has \<open>min: 0\<close>. A required string must not be empty,
  a required number must not be \<open>null\<close>. \<open>timestamps: true\<close> sets \<open>createdAt\<close> and
  \<open>updatedAt\<close> to the time of the save. The fresh \<open>_id\<close> is \<open>oid\<close>.
\<close>

definition valid_string :: "bool \<Rightarrow> string field \<Rightarrow> string option" where
  "valid_string trim v =
     (case v of
        Val s \<Rightarrow> (let t = (if trim then js_trim s else s) in if t = [] then None else Some t)
      | _ \<Rightarrow> None)"

definition valid_number :: "rat \<Rightarrow> rat option \<Rightarrow> rat field \<Rightarrow> rat option" where
  "valid_number lo hi v =
     (case v of
        Val x \<Rightarrow> if lo \<le> x \<and> (case hi of None \<Rightarrow> True | Some h \<Rightarrow> x \<le> h) then Some x else None
      | _ \<Rightarrow> None)"

definition new_doc :: "nat \<Rightarrow> int \<Rightarrow> post_body \<Rightarrow> doc option" where
  "new_doc oid now b =
     (case valid_string True (body_pcId b) of None \<Rightarrow> None | Some p \<Rightarrow>
      case valid_number 0 (Some 100) (body_cpu b) of None \<Rightarrow> None | Some c \<Rightarrow>
      case valid_number 0 (Some 100) (body_ram b) of None \<Rightarrow> None | Some r \<Rightarrow>
      case valid_number 0 (Some 100) (body_disk b) of None \<Rightarrow> None | Some k \<Rightarrow>
      case valid_string False (body_os b) of None \<Rightarrow> None | Some s \<Rightarrow>
      case valid_number 0 None (body_uptime b) of None \<Rightarrow> None | Some u \<Rightarrow>
        Some \<lparr>doc_id = oid, pcId = p, cpu = c, ram = r, disk = k, os = s, uptime = u,
              createdAt = now, updatedAt = now\<rparr>)"

subsection \<open>POST /api/systemdata\<close>

definition bad_request :: "string \<Rightarrow> response" where
  "bad_request m = \<lparr>status = 400, payload = Message m\<rparr>"

definition server_error :: "js_error \<Rightarrow> response" where
  "server_error e = \<lparr>status = 500, payload = ServerError e\<rparr>"

definition missing_fields :: "post_body \<Rightarrow> bool" where
  "missing_fields b =
     (js_not (body_pcId b) \<or> is_undefined (body_cpu b) \<or> is_undefined (body_ram b) \<or>
      is_undefined (body_disk b) \<or> js_not (body_os b) \<or> is_undefined (body_uptime b))"

definition invalid_ranges :: "post_body \<Rightarrow> bool" where
  "invalid_ranges b =
     (js_lt (body_cpu b) 0 \<or> js_gt (body_cpu b) 100 \<or>
      js_lt (body_ram b) 0 \<or> js_gt (body_ram b) 100 \<or>
      js_lt (body_disk b) 0 \<or> js_gt (body_disk b) 100 \<or> js_lt (body_uptime b) 0)"

definition post_systemdata ::
    "nat \<Rightarrow> int \<Rightarrow> post_body \<Rightarrow> collection \<Rightarrow> response \<times> collection" where
  "post_systemdata oid now b coll =
     (if missing_fields b then
        (bad_request ''Missing required fields: pcId, cpu, ram, disk, os, uptime'', coll)
      else if invalid_ranges b then
        (bad_request ''Invalid data ranges: cpu/ram/disk (0-100), uptime (>=0)'', coll)
      else
        (case new_doc oid now b of
           None \<Rightarrow> (server_error ValidationError, coll)
         | Some d \<Rightarrow>
             (\<lparr>status = 201, payload = Saved (doc_id d) (pcId d) (createdAt d)\<rparr>,
              coll @ [d])))"

subsection \<open>GET /api/systemdata\<close>

text \<open>
  The branch for one PC is taken when the query parameter \<open>pcId\<close> is truthy, that is a
  non-empty string. The other branch calls \<open>getOverviewStats()\<close> without \<open>hoursNum\<close>,
  falls back to zeros when the aggregation is empty, and reports the time range as the
  literal \<open>24 hours\<close>; the branch for one PC reports \<open>hoursNum\<close>. The handler reads
  the documents as the scan delivers them.
\<close>

definition no_overview :: overview where
  "no_overview = \<lparr>avgCpu = 0, avgRam = 0, avgDisk = 0, totalPCs = 0\<rparr>"

definition overview_or_default :: "overview list \<Rightarrow> overview" where
  "overview_or_default stats = (case stats of [] \<Rightarrow> no_overview | x # _ \<Rightarrow> x)"

definition get_systemdata ::
    "int \<Rightarrow> doc list \<Rightarrow> string option \<Rightarrow> string option \<Rightarrow> response" where
  "get_systemdata now scan q_pcId q_hours =
     (case hoursNum_of q_hours of
        None \<Rightarrow> bad_request ''Invalid hours parameter (1-168)''
      | Some hoursNum \<Rightarrow>
          if hoursNum < 1 \<or> hoursNum > 168 then bad_request ''Invalid hours parameter (1-168)''
          else
            (case q_pcId of
               Some (c # cs) \<Rightarrow>
                 \<lparr>status = 200,
                  payload = PcData (c # cs) (findOne_latest scan (c # cs))
                              (getHistoricalData now scan (c # cs) hoursNum) hoursNum\<rparr>
             | _ \<Rightarrow>
                 \<lparr>status = 200,
                  payload = AllData (getLatestData scan)
                              (overview_or_default (getOverviewStats now scan))
                              ''24 hours''\<rparr>))"

subsection \<open>GET /api/systemdata/pcs\<close>

definition get_pcs :: "doc list \<Rightarrow> response" where
  "get_pcs scan =
     (let pcs = getLatestData scan
      in \<lparr>status = 200, payload = PcList pcs (length pcs)\<rparr>)"

subsection \<open>DELETE /api/systemdata/cleanup\<close>

text \<open>
  Calling the \<open>undefined\<close> property \<open>SystemInfo.cleanupOldData\<close> throws a TypeError
  inside the \<open>try\<close> block; the \<open>catch\<close> answers 500.
\<close>

definition delete_cleanup ::
    "int \<Rightarrow> collection \<Rightarrow> string option \<Rightarrow> response \<times> collection" where
  "delete_cleanup now coll q_hours =
     (case hoursNum_of q_hours of
        None \<Rightarrow> (bad_request ''Invalid hours parameter'', coll)
      | Some hoursNum \<Rightarrow>
          if hoursNum < 1 then (bad_request ''Invalid hours parameter'', coll)
          else
            (case cleanupOldData of
               None \<Rightarrow> (server_error TypeError, coll)
             | Some f \<Rightarrow>
                 (case f now hoursNum coll of
                    (deletedCount, coll') \<Rightarrow>
                      (\<lparr>status = 200, payload = Cleaned deletedCount\<rparr>, coll'))))"

section \<open>Test data\<close>

text \<open>
  \<open>reading i p c t\<close> is the document that a POST of the body \<open>report p c\<close> stores
  at time \<open>t\<close> under the identifier \<open>i\<close>: all three percentages are \<open>c\<close>.
\<close>

definition report :: "string \<Rightarrow> rat \<Rightarrow> post_body" where
  "report p c =
     \<lparr>body_pcId = Val p, body_cpu = Val c, body_ram = Val c, body_disk = Val c,
      body_os = Val ''Linux'', body_uptime = Val 3600\<rparr>"

definition reading :: "nat \<Rightarrow> string \<Rightarrow> rat \<Rightarrow> int \<Rightarrow> doc" where
  "reading i p c t =
     \<lparr>doc_id = i, pcId = p, cpu = c, ram = c, disk = c, os = ''Linux'', uptime = 3600,
      createdAt = t, updatedAt = t\<rparr>"

section \<open>Notions of the specification\<close>

text \<open>
  The window of \<open>h\<close> hours before \<open>now\<close>, and \<open>allWithinWindow\<close>: the documents whose
  \<open>createdAt\<close> is not before \<open>now\<close> minus \<open>h\<close> hours, of whatever PC.
\<close>

definition hours_ms :: "int \<Rightarrow> int" where
  "hours_ms h = h * 60 * 60 * 1000"

definition allWithinWindow :: "int \<Rightarrow> int \<Rightarrow> collection \<Rightarrow> doc list" where
  "allWithinWindow now h coll = filter (\<lambda>d. now - hours_ms h \<le> createdAt d) coll"

text \<open>
  The overview of a sequence of documents in the words of the specification: the
  arithmetic mean of each percentage rounded to two places and the number of distinct
  \<open>pcId\<close> values; all zero for the empty sequence.
\<close>

definition mean :: "rat list \<Rightarrow> rat" where
  "mean xs = (if xs = [] then 0 else sum_list xs / of_nat (length xs))"

definition overview_of :: "doc list \<Rightarrow> overview" where
  "overview_of ds =
     \<lparr>avgCpu = round2 (mean (map cpu ds)),
      avgRam = round2 (mean (map ram ds)),
      avgDisk = round2 (mean (map disk ds)),
      totalPCs = card (pcId ` set ds)\<rparr>"

text \<open>
  A document is expired at \<open>now\<close> when its age exceeds the retention window of
  \<open>expireAfterSeconds\<close>.
\<close>

definition expired :: "int \<Rightarrow> doc \<Rightarrow> bool" where
  "expired now d = (createdAt d + expireAfterSeconds * 1000 < now)"

section \<open>Properties\<close>

subsection \<open>Trimming and scans\<close>

lemma js_trim_Nil: "js_trim [] = []"
  by code_simp

lemma js_trim_nonempty: "js_trim p \<noteq> [] \<Longrightarrow> p \<noteq> []"
  using js_trim_Nil by auto

lemma js_trim_PC1: "js_trim ''PC-1'' = ''PC-1''"
  by code_simp

lemma js_trim_PC9: "js_trim ''PC-9'' = ''PC-9''"
  by code_simp

lemma js_trim_padded: "js_trim ([CHR 0x20] @ ''PC-1'' @ [CHR 0xC2, CHR 0xA0]) = ''PC-1''"
  by code_simp

lemma js_trim_nbsp: "js_trim [CHR 0xC2, CHR 0xA0] = []"
  by code_simp

lemma js_trim_PC1_nbsp: "js_trim (''PC-1'' @ [CHR 0xC2, CHR 0xA0]) = ''PC-1''"
  by code_simp


lemma delivers_set: "delivers coll scan \<Longrightarrow> set scan = set coll"
  unfolding delivers_def by (rule mset_eq_setD)

lemma delivers_filter: "delivers coll scan \<Longrightarrow> mset (filter P scan) = mset (filter P coll)"
  by (simp add: delivers_def)

text \<open>Every sorted arrangement of the collection is the output of the sort stage for some scan.\<close>

lemma sort_stage_any:
  "mset ds = mset coll \<Longrightarrow> sorted (map (\<lambda>d. (pcId d, - createdAt d)) ds) \<Longrightarrow>
   delivers coll ds \<and> sort_stage ds = ds"
  by (simp add: delivers_def sort_stage_def sort_key_id_if_sorted)

subsection \<open>Cleanup\<close>

lemma delete_cleanup_valid_hours:
  "hoursNum_of q = Some h \<Longrightarrow> 1 \<le> h \<Longrightarrow> delete_cleanup now coll q = (server_error TypeError, coll)"
  by (simp add: delete_cleanup_def cleanupOldData_def)

text \<open>
  C1. The claim: for every valid hours parameter the purge answers 200 with the number
  of removed documents, and on an empty collection it answers 200 with
  \<open>deletedCount\<close> 0. The router calls a static method that the model does not define, so
  the request with the default of 24 hours on the empty collection is answered 500.
\<close>

theorem cleanup_empty_store_fails:
  "delete_cleanup 1700000000000 [] None =
     (\<lparr>status = 500, payload = ServerError TypeError\<rparr>, [])"
  by (simp add: delete_cleanup_def cleanupOldData_def hoursNum_of_def server_error_def)

subsection \<open>Latest document of every PC\<close>

lemma group_first_subset: "set (group_first xs) \<subseteq> set xs"
  by (induction xs rule: group_first.induct) auto

lemma group_first_keys: "pcId ` set (group_first xs) = pcId ` set xs"
proof (induction xs rule: group_first.induct)
  case 1
  show ?case by simp
next
  case (2 d ds)
  have "pcId ` set (d # ds) = insert (pcId d) (pcId ` set (filter (\<lambda>x. pcId x \<noteq> pcId d) ds))"
    by auto
  with 2 show ?case by simp
qed

lemma group_first_distinct: "distinct (map pcId (group_first xs))"
proof (induction xs rule: group_first.induct)
  case 1
  show ?case by simp
next
  case (2 d ds)
  have "pcId d \<notin> pcId ` set (group_first (filter (\<lambda>x. pcId x \<noteq> pcId d) ds))"
    unfolding group_first_keys by auto
  with 2 show ?case by simp
qed

lemma find_filter_other:
  "q \<noteq> p \<Longrightarrow>
   find (\<lambda>x. pcId x = q) (filter (\<lambda>x. pcId x \<noteq> p) ds) = find (\<lambda>x. pcId x = q) ds"
  by (induction ds) auto

lemma group_first_is_first:
  "d \<in> set (group_first xs) \<Longrightarrow> find (\<lambda>x. pcId x = pcId d) xs = Some d"
proof (induction xs rule: group_first.induct)
  case 1
  then show ?case by simp
next
  case (2 e ds)
  show ?case
  proof (cases "d = e")
    case True
    then show ?thesis by simp
  next
    case False
    with 2 have mem: "d \<in> set (group_first (filter (\<lambda>x. pcId x \<noteq> pcId e) ds))" by simp
    then have "d \<in> set (filter (\<lambda>x. pcId x \<noteq> pcId e) ds)"
      using group_first_subset by blast
    then have ne: "pcId d \<noteq> pcId e" by simp
    from 2 mem
    have "find (\<lambda>x. pcId x = pcId d) (filter (\<lambda>x. pcId x \<noteq> pcId e) ds) = Some d"
      by simp
    with ne show ?thesis by (simp add: find_filter_other)
  qed
qed

lemma sorted_find_least:
  "sorted (map k xs) \<Longrightarrow> find P xs = Some d \<Longrightarrow> x \<in> set xs \<Longrightarrow> P x \<Longrightarrow> k d \<le> k x"
  by (induction xs) (auto split: if_splits)

lemma getLatestData_subset: "set (getLatestData coll) \<subseteq> set coll"
  using group_first_subset[of "sort_stage coll"]
  by (simp add: getLatestData_def sort_stage_def)

lemma getLatestData_max:
  assumes "d \<in> set (getLatestData coll)" "x \<in> set coll" "pcId x = pcId d"
  shows "createdAt x \<le> createdAt d"
proof -
  let ?k = "\<lambda>d. (pcId d, - createdAt d)"
  have f: "find (\<lambda>y. pcId y = pcId d) (sort_key ?k coll) = Some d"
    using assms(1) unfolding getLatestData_def sort_stage_def by (rule group_first_is_first)
  have s: "sorted (map ?k (sort_key ?k coll))" by (rule sorted_sort_key)
  have m: "x \<in> set (sort_key ?k coll)" using assms(2) by simp
  have "?k d \<le> ?k x" by (rule sorted_find_least[OF s f m assms(3)])
  with assms(3) show ?thesis by (simp add: less_eq_prod_def)
qed

text \<open>
  C2. For every collection, \<open>getLatestData\<close> (served by GET /pcs with its length as
  \<open>count\<close>) returns exactly one document for every \<open>pcId\<close> present in the collection and
  none for any other; each returned document belongs to the collection and no document
  of the same PC has a later \<open>createdAt\<close>.
\<close>

theorem latest_per_machine:
  "distinct (map pcId (getLatestData coll)) \<and>
   set (map pcId (getLatestData coll)) = pcId ` set coll \<and>
   (\<forall>d \<in> set (getLatestData coll). d \<in> set coll \<and>
      (\<forall>x \<in> set coll. pcId x = pcId d \<longrightarrow> createdAt x \<le> createdAt d)) \<and>
   get_pcs coll =
     \<lparr>status = 200, payload = PcList (getLatestData coll) (length (getLatestData coll))\<rparr>"
proof (intro conjI ballI impI)
  show "distinct (map pcId (getLatestData coll))"
    unfolding getLatestData_def by (rule group_first_distinct)
  show "set (map pcId (getLatestData coll)) = pcId ` set coll"
    unfolding getLatestData_def sort_stage_def by (simp add: group_first_keys)
  show "d \<in> set coll" if "d \<in> set (getLatestData coll)" for d
    using that getLatestData_subset by blast
  show "createdAt x \<le> createdAt d"
    if "d \<in> set (getLatestData coll)" "x \<in> set coll" "pcId x = pcId d" for d x
    using that by (rule getLatestData_max)
  show "get_pcs coll =
     \<lparr>status = 200, payload = PcList (getLatestData coll) (length (getLatestData coll))\<rparr>"
    by (simp add: get_pcs_def Let_def)
qed

theorem latest_per_machine_witness:
  "getLatestData [reading 1 ''PC-2'' 10 1000, reading 2 ''PC-1'' 20 2000,
                  reading 3 ''PC-2'' 30 3000]
     = [reading 2 ''PC-1'' 20 2000, reading 3 ''PC-2'' 30 3000] \<and>
   reading 3 ''PC-2'' 30 3000 \<in> set [reading 1 ''PC-2'' 10 1000, reading 2 ''PC-1'' 20 2000,
                                     reading 3 ''PC-2'' 30 3000] \<and>
   pcId (reading 1 ''PC-2'' 10 1000) = pcId (reading 3 ''PC-2'' 30 3000) \<and>
   createdAt (reading 1 ''PC-2'' 10 1000) \<le> createdAt (reading 3 ''PC-2'' 30 3000)"
  using latest_per_machine [of "[reading 1 ''PC-2'' 10 1000, reading 2 ''PC-1'' 20 2000,
                                 reading 3 ''PC-2'' 30 3000]"]
  by (simp add: getLatestData_def sort_stage_def reading_def)

subsection \<open>Query parameters and the two branches of GET\<close>

lemma hoursNum_of_default: "hoursNum_of None = Some 24"
  by (simp add: hoursNum_of_def)

lemma hoursNum_of_1: "hoursNum_of (Some ''1'') = Some 1"
  by code_simp

lemma hoursNum_of_2: "hoursNum_of (Some ''2'') = Some 2"
  by code_simp

lemma hoursNum_of_168: "hoursNum_of (Some ''168'') = Some 168"
  by code_simp

lemma get_systemdata_pc:
  "hoursNum_of q = Some h \<Longrightarrow> 1 \<le> h \<Longrightarrow> h \<le> 168 \<Longrightarrow> p \<noteq> [] \<Longrightarrow>
   get_systemdata now coll (Some p) q =
     \<lparr>status = 200,
      payload = PcData p (findOne_latest coll p) (getHistoricalData now coll p h) h\<rparr>"
  by (cases p) (simp_all add: get_systemdata_def)

lemma get_systemdata_all:
  "hoursNum_of q = Some h \<Longrightarrow> 1 \<le> h \<Longrightarrow> h \<le> 168 \<Longrightarrow>
   get_systemdata now coll None q =
     \<lparr>status = 200,
      payload = AllData (getLatestData coll) (overview_or_default (getOverviewStats now coll))
                  ''24 hours''\<rparr>"
  by (simp add: get_systemdata_def)

subsection \<open>Overview statistics\<close>

lemma round_half_even_near: "\<bar>of_int (round_half_even x) - x\<bar> \<le> 1 / 2"
proof -
  have "of_int \<lfloor>x\<rfloor> \<le> x" "x < of_int \<lfloor>x\<rfloor> + 1" by linarith+
  then show ?thesis
    by (auto simp: round_half_even_def Let_def abs_le_iff)
qed

lemma round2_near: "\<bar>round2 x - x\<bar> \<le> 1 / 200"
proof -
  have "\<bar>of_int (round_half_even (x * 100)) - x * 100\<bar> \<le> 1 / 2"
    by (rule round_half_even_near)
  then show ?thesis by (simp add: round2_def abs_le_iff field_simps)
qed

lemma round2_hundredths: "\<exists>n::int. round2 x = of_int n / 100"
  by (auto simp: round2_def)

lemma round2_zero: "round2 0 = 0"
  by (simp add: round2_def round_half_even_def)

lemma overview_eq:
  "overview_or_default (getOverviewStats now coll) = overview_of (allWithinWindow now 24 coll)"
proof -
  let ?W = "filter (\<lambda>d. now - 24 * 60 * 60 * 1000 \<le> createdAt d) coll"
  have W: "allWithinWindow now 24 coll = ?W"
    by (simp add: allWithinWindow_def hours_ms_def)
  show ?thesis
  proof (cases "?W = []")
    case True
    then show ?thesis
      unfolding W
      by (simp add: getOverviewStats_def Let_def group_project_def overview_or_default_def
          no_overview_def overview_of_def mean_def round2_zero)
  next
    case False
    then show ?thesis
      unfolding W
      by (simp add: getOverviewStats_def Let_def group_project_def overview_or_default_def
          overview_of_def mean_def avg_def length_remdups_card_conv)
  qed
qed

text \<open>
  C3. For every collection: when at least one document lies in the overview window (the
  24 hours before the query), the overview holds the arithmetic mean of \<open>cpu\<close>, \<open>ram\<close>
  and \<open>disk\<close> over the documents of the window, each rounded to two places, and the
  number of distinct \<open>pcId\<close> values among them; when none does, the overview is all
  zero and nothing fails. Rounding to two places yields a multiple of 1/100 at most
  1/200 away. GET without parameters answers 200 with this overview.
\<close>

theorem overview_stats:
  "(allWithinWindow now 24 coll \<noteq> [] \<longrightarrow>
      overview_or_default (getOverviewStats now coll) =
        \<lparr>avgCpu = round2 (sum_list (map cpu (allWithinWindow now 24 coll)) /
                     of_nat (length (allWithinWindow now 24 coll))),
         avgRam = round2 (sum_list (map ram (allWithinWindow now 24 coll)) /
                     of_nat (length (allWithinWindow now 24 coll))),
         avgDisk = round2 (sum_list (map disk (allWithinWindow now 24 coll)) /
                     of_nat (length (allWithinWindow now 24 coll))),
         totalPCs = card (pcId ` set (allWithinWindow now 24 coll))\<rparr>) \<and>
   (allWithinWindow now 24 coll = [] \<longrightarrow>
      overview_or_default (getOverviewStats now coll) =
        \<lparr>avgCpu = 0, avgRam = 0, avgDisk = 0, totalPCs = 0\<rparr>) \<and>
   (\<forall>x. \<bar>round2 x - x\<bar> \<le> 1 / 200 \<and> (\<exists>n::int. round2 x = of_int n / 100)) \<and>
   get_systemdata now coll None None =
     \<lparr>status = 200,
      payload = AllData (getLatestData coll) (overview_or_default (getOverviewStats now coll))
                  ''24 hours''\<rparr>"
proof (intro conjI impI allI)
  assume "allWithinWindow now 24 coll \<noteq> []"
  then show "overview_or_default (getOverviewStats now coll) =
        \<lparr>avgCpu = round2 (sum_list (map cpu (allWithinWindow now 24 coll)) /
                     of_nat (length (allWithinWindow now 24 coll))),
         avgRam = round2 (sum_list (map ram (allWithinWindow now 24 coll)) /
                     of_nat (length (allWithinWindow now 24 coll))),
         avgDisk = round2 (sum_list (map disk (allWithinWindow now 24 coll)) /
                     of_nat (length (allWithinWindow now 24 coll))),
         totalPCs = card (pcId ` set (allWithinWindow now 24 coll))\<rparr>"
    unfolding overview_eq by (simp add: overview_of_def mean_def)
next
  assume "allWithinWindow now 24 coll = []"
  then show "overview_or_default (getOverviewStats now coll) =
        \<lparr>avgCpu = 0, avgRam = 0, avgDisk = 0, totalPCs = 0\<rparr>"
    unfolding overview_eq by (simp add: overview_of_def mean_def round2_zero)
next
  show "\<bar>round2 x - x\<bar> \<le> 1 / 200" for x by (rule round2_near)
  show "\<exists>n::int. round2 x = of_int n / 100" for x by (rule round2_hundredths)
  show "get_systemdata now coll None None =
     \<lparr>status = 200,
      payload = AllData (getLatestData coll) (overview_or_default (getOverviewStats now coll))
                  ''24 hours''\<rparr>"
    by (simp add: get_systemdata_def hoursNum_of_def)
qed

theorem overview_stats_witness:
  "allWithinWindow 90000000 24
     [reading 11 ''PC-1'' 99 1000, reading 12 ''PC-1'' 10 80000000, reading 13 ''PC-2'' 20 80000000,
      reading 14 ''PC-3'' 30 80000000] =
     [reading 12 ''PC-1'' 10 80000000, reading 13 ''PC-2'' 20 80000000,
      reading 14 ''PC-3'' 30 80000000] \<and>
   overview_or_default (getOverviewStats 90000000
     [reading 11 ''PC-1'' 99 1000, reading 12 ''PC-1'' 10 80000000, reading 13 ''PC-2'' 20 80000000,
      reading 14 ''PC-3'' 30 80000000]) =
     \<lparr>avgCpu = 20, avgRam = 20, avgDisk = 20, totalPCs = 3\<rparr> \<and>
   allWithinWindow 90000000 24 [reading 11 ''PC-1'' 99 1000] = [] \<and>
   overview_or_default (getOverviewStats 90000000 [reading 11 ''PC-1'' 99 1000]) =
     \<lparr>avgCpu = 0, avgRam = 0, avgDisk = 0, totalPCs = 0\<rparr>"
proof -
  let ?C = "[reading 11 ''PC-1'' 99 1000, reading 12 ''PC-1'' 10 80000000,
             reading 13 ''PC-2'' 20 80000000, reading 14 ''PC-3'' 30 80000000]"
  let ?W = "[reading 12 ''PC-1'' 10 80000000, reading 13 ''PC-2'' 20 80000000,
             reading 14 ''PC-3'' 30 80000000]"
  have w: "allWithinWindow 90000000 24 ?C = ?W"
    by (simp add: allWithinWindow_def hours_ms_def reading_def)
  have e: "allWithinWindow 90000000 24 [reading 11 ''PC-1'' 99 1000] = []"
    by (simp add: allWithinWindow_def hours_ms_def reading_def)
  have r: "round2 20 = 20"
    by (simp add: round2_def round_half_even_def)
  have c: "card (pcId ` set ?W) = 3"
    by (simp add: reading_def)
  have "allWithinWindow 90000000 24 ?C \<noteq> []"
    unfolding w by simp
  with overview_stats [of 90000000 ?C]
  have "overview_or_default (getOverviewStats 90000000 ?C) =
        \<lparr>avgCpu = round2 (sum_list (map cpu ?W) / of_nat (length ?W)),
         avgRam = round2 (sum_list (map ram ?W) / of_nat (length ?W)),
         avgDisk = round2 (sum_list (map disk ?W) / of_nat (length ?W)),
         totalPCs = card (pcId ` set ?W)\<rparr>"
    unfolding w by blast
  then have full: "overview_or_default (getOverviewStats 90000000 ?C) =
        \<lparr>avgCpu = 20, avgRam = 20, avgDisk = 20, totalPCs = 3\<rparr>"
    unfolding c by (simp add: reading_def r)
  from overview_stats [of 90000000 "[reading 11 ''PC-1'' 99 1000]"] e
  have none: "overview_or_default (getOverviewStats 90000000 [reading 11 ''PC-1'' 99 1000]) =
        \<lparr>avgCpu = 0, avgRam = 0, avgDisk = 0, totalPCs = 0\<rparr>"
    by blast
  from w full e none show ?thesis by blast
qed

subsection \<open>History of one PC\<close>

lemma getHistoricalData_mset:
  "delivers coll scan \<Longrightarrow>
   mset (getHistoricalData now scan p h) =
     mset (filter (\<lambda>d. pcId d = js_trim p \<and> now - hours_ms h \<le> createdAt d) coll)"
  using delivers_filter [of coll scan "\<lambda>d. pcId d = js_trim p \<and> now - hours_ms h \<le> createdAt d"]
  by (simp add: getHistoricalData_def hours_ms_def)

text \<open>
  C6. For every PC and every valid number of hours \<open>h\<close> (1 to 168), whatever the order in
  which the scan delivers the collection, the history that GET returns holds exactly the
  documents of that PC whose \<open>createdAt\<close> is not before now minus \<open>h\<close> hours, in
  ascending order of \<open>createdAt\<close>; it is the empty sequence, with status 200, when the
  collection has no such document. The PC is the one named by the trimmed query
  parameter, as stored identifiers are trimmed; for a parameter without surrounding
  white space it is the parameter itself.
\<close>

theorem history_for:
  assumes "hoursNum_of q = Some h" "1 \<le> h" "h \<le> 168" "p \<noteq> []" "delivers coll scan"
  shows "(\<exists>latest. get_systemdata now scan (Some p) q =
            \<lparr>status = 200, payload = PcData p latest (getHistoricalData now scan p h) h\<rparr>) \<and>
         mset (getHistoricalData now scan p h) =
           mset (filter (\<lambda>d. pcId d = js_trim p \<and> now - hours_ms h \<le> createdAt d) coll) \<and>
         sorted (map createdAt (getHistoricalData now scan p h)) \<and>
         ((\<forall>d \<in> set coll. pcId d = js_trim p \<longrightarrow> createdAt d < now - hours_ms h) \<longrightarrow>
            getHistoricalData now scan p h = []) \<and>
         (js_trim p = p \<longrightarrow>
            mset (getHistoricalData now scan p h) =
              mset (filter (\<lambda>d. pcId d = p \<and> now - hours_ms h \<le> createdAt d) coll))"
proof (intro conjI impI)
  show "\<exists>latest. get_systemdata now scan (Some p) q =
            \<lparr>status = 200, payload = PcData p latest (getHistoricalData now scan p h) h\<rparr>"
    using get_systemdata_pc[OF assms(1-4)] by blast
  show m: "mset (getHistoricalData now scan p h) =
           mset (filter (\<lambda>d. pcId d = js_trim p \<and> now - hours_ms h \<le> createdAt d) coll)"
    using assms(5) by (rule getHistoricalData_mset)
  show "sorted (map createdAt (getHistoricalData now scan p h))"
    by (simp add: getHistoricalData_def)
  show "getHistoricalData now scan p h = []"
    if "\<forall>d \<in> set coll. pcId d = js_trim p \<longrightarrow> createdAt d < now - hours_ms h"
  proof -
    have "filter (\<lambda>d. pcId d = js_trim p \<and> now - hours_ms h \<le> createdAt d) coll = []"
      using that by (auto simp: filter_empty_conv)
    with m have "mset (getHistoricalData now scan p h) = {#}" by simp
    then show ?thesis by simp
  qed
  show "mset (getHistoricalData now scan p h) =
          mset (filter (\<lambda>d. pcId d = p \<and> now - hours_ms h \<le> createdAt d) coll)"
    if "js_trim p = p"
    using m that by simp
qed

theorem history_for_witness:
  "hoursNum_of (Some ''2'') = Some 2 \<and>
   delivers
     [reading 11 ''PC-1'' 10 0, reading 12 ''PC-1'' 30 9000000, reading 13 ''PC-2'' 5 9500000,
      reading 14 ''PC-1'' 20 3600000]
     [reading 14 ''PC-1'' 20 3600000, reading 13 ''PC-2'' 5 9500000,
      reading 12 ''PC-1'' 30 9000000, reading 11 ''PC-1'' 10 0] \<and>
   get_systemdata 10800000
     [reading 14 ''PC-1'' 20 3600000, reading 13 ''PC-2'' 5 9500000,
      reading 12 ''PC-1'' 30 9000000, reading 11 ''PC-1'' 10 0] (Some ''PC-1'') (Some ''2'') =
     \<lparr>status = 200,
      payload = PcData ''PC-1'' (Some (reading 12 ''PC-1'' 30 9000000))
                  [reading 14 ''PC-1'' 20 3600000, reading 12 ''PC-1'' 30 9000000] 2\<rparr> \<and>
   getHistoricalData 10800000
     [reading 14 ''PC-1'' 20 3600000, reading 13 ''PC-2'' 5 9500000,
      reading 12 ''PC-1'' 30 9000000, reading 11 ''PC-1'' 10 0]
     ([CHR 0x20] @ ''PC-1'' @ [CHR 0xC2, CHR 0xA0]) 2 =
     [reading 14 ''PC-1'' 20 3600000, reading 12 ''PC-1'' 30 9000000] \<and>
   getHistoricalData 10800000
     [reading 14 ''PC-1'' 20 3600000, reading 13 ''PC-2'' 5 9500000,
      reading 12 ''PC-1'' 30 9000000, reading 11 ''PC-1'' 10 0] ''PC-9'' 2 = []"
proof -
  let ?C = "[reading 11 ''PC-1'' 10 0, reading 12 ''PC-1'' 30 9000000,
             reading 13 ''PC-2'' 5 9500000, reading 14 ''PC-1'' 20 3600000]"
  let ?S = "[reading 14 ''PC-1'' 20 3600000, reading 13 ''PC-2'' 5 9500000,
             reading 12 ''PC-1'' 30 9000000, reading 11 ''PC-1'' 10 0]"
  have h: "hoursNum_of (Some ''2'') = Some 2" by (rule hoursNum_of_2)
  have v: "delivers ?C ?S" by (simp add: delivers_def)
  have a: "getHistoricalData 10800000 ?S ''PC-1'' 2 =
             [reading 14 ''PC-1'' 20 3600000, reading 12 ''PC-1'' 30 9000000]"
    by (simp add: getHistoricalData_def reading_def js_trim_PC1)
  have b: "getHistoricalData 10800000 ?S ([CHR 0x20] @ ''PC-1'' @ [CHR 0xC2, CHR 0xA0]) 2 =
             [reading 14 ''PC-1'' 20 3600000, reading 12 ''PC-1'' 30 9000000]"
    unfolding getHistoricalData_def js_trim_padded by (simp add: reading_def)
  have l: "findOne_latest ?S ''PC-1'' = Some (reading 12 ''PC-1'' 30 9000000)"
    by (simp add: findOne_latest_def reading_def js_trim_PC1)
  have "\<exists>latest. get_systemdata 10800000 ?S (Some ''PC-1'') (Some ''2'') =
          \<lparr>status = 200,
           payload = PcData ''PC-1'' latest (getHistoricalData 10800000 ?S ''PC-1'' 2) 2\<rparr>"
    using history_for [of "Some ''2''" 2 "''PC-1''" ?C ?S 10800000] h v by simp
  then have g: "get_systemdata 10800000 ?S (Some ''PC-1'') (Some ''2'') =
      \<lparr>status = 200,
       payload = PcData ''PC-1'' (Some (reading 12 ''PC-1'' 30 9000000))
                  [reading 14 ''PC-1'' 20 3600000, reading 12 ''PC-1'' 30 9000000] 2\<rparr>"
    unfolding a by (simp add: get_systemdata_def h l a)
  have "\<forall>d \<in> set ?C. pcId d = js_trim ''PC-9'' \<longrightarrow> createdAt d < 10800000 - hours_ms 2"
    unfolding js_trim_PC9 by (simp add: reading_def)
  then have e: "getHistoricalData 10800000 ?S ''PC-9'' 2 = []"
    using history_for [of "Some ''2''" 2 "''PC-9''" ?C ?S 10800000] h v by simp
  from h v g b e show ?thesis by blast
qed

subsection \<open>Latest document of one PC\<close>

lemma findOne_latest_None:
  "findOne_latest scan p = None \<longleftrightarrow> (\<forall>d \<in> set scan. pcId d \<noteq> js_trim p)"
proof -
  have "findOne_latest scan p = None \<longleftrightarrow>
        sort_key (\<lambda>d. - createdAt d) (filter (\<lambda>d. pcId d = js_trim p) scan) = []"
    by (simp add: findOne_latest_def split: list.splits)
  also have "\<dots> \<longleftrightarrow>
        set (sort_key (\<lambda>d. - createdAt d) (filter (\<lambda>d. pcId d = js_trim p) scan)) = {}"
    by (simp only: set_empty)
  also have "\<dots> \<longleftrightarrow> (\<forall>d \<in> set scan. pcId d \<noteq> js_trim p)"
    by auto
  finally show ?thesis .
qed

lemma findOne_latest_Some:
  assumes "findOne_latest scan p = Some d"
  shows "d \<in> set scan \<and> pcId d = js_trim p \<and>
         (\<forall>x \<in> set scan. pcId x = js_trim p \<longrightarrow> createdAt x \<le> createdAt d)"
proof -
  let ?k = "\<lambda>d. - createdAt d"
  let ?m = "filter (\<lambda>d. pcId d = js_trim p) scan"
  obtain ds where s: "sort_key ?k ?m = d # ds"
    using assms by (auto simp: findOne_latest_def split: list.splits)
  have "d \<in> set (sort_key ?k ?m)" unfolding s by simp
  then have mem: "d \<in> set scan \<and> pcId d = js_trim p" by simp
  have "sorted (map ?k (d # ds))" using sorted_sort_key[of ?k ?m] by (simp only: s)
  then have le: "\<forall>x \<in> set ds. ?k d \<le> ?k x" by simp
  have "createdAt x \<le> createdAt d" if "x \<in> set scan" "pcId x = js_trim p" for x
  proof -
    have "x \<in> set (sort_key ?k ?m)" using that by simp
    then have "x = d \<or> x \<in> set ds" unfolding s by simp
    with le show ?thesis by auto
  qed
  with mem show ?thesis by blast
qed

text \<open>
  C9. GET with a \<open>pcId\<close> returns as \<open>latest\<close> a document of that PC with the greatest
  \<open>createdAt\<close> among all documents of the collection, whatever the window of the query
  and whatever the order in which the scan delivers the collection, and \<open>null\<close> exactly
  when the collection has no document of that PC. The PC is the one named by the
  trimmed query parameter; for a parameter without surrounding white space it is the
  parameter itself.
\<close>

theorem machine_latest:
  assumes "hoursNum_of q = Some h" "1 \<le> h" "h \<le> 168" "p \<noteq> []" "delivers coll scan"
  shows "(\<exists>hist. get_systemdata now scan (Some p) q =
            \<lparr>status = 200, payload = PcData p (findOne_latest scan p) hist h\<rparr>) \<and>
         (findOne_latest scan p = None \<longleftrightarrow> (\<forall>d \<in> set coll. pcId d \<noteq> js_trim p)) \<and>
         (\<forall>d. findOne_latest scan p = Some d \<longrightarrow>
            d \<in> set coll \<and> pcId d = js_trim p \<and>
            (\<forall>x \<in> set coll. pcId x = js_trim p \<longrightarrow> createdAt x \<le> createdAt d)) \<and>
         (js_trim p = p \<longrightarrow>
            (findOne_latest scan p = None \<longleftrightarrow> (\<forall>d \<in> set coll. pcId d \<noteq> p)) \<and>
            (\<forall>d. findOne_latest scan p = Some d \<longrightarrow>
               d \<in> set coll \<and> pcId d = p \<and>
               (\<forall>x \<in> set coll. pcId x = p \<longrightarrow> createdAt x \<le> createdAt d)))"
proof -
  have s: "set scan = set coll" using assms(5) by (rule delivers_set)
  have r: "\<exists>hist. get_systemdata now scan (Some p) q =
            \<lparr>status = 200, payload = PcData p (findOne_latest scan p) hist h\<rparr>"
    using get_systemdata_pc[OF assms(1-4)] by blast
  have n: "findOne_latest scan p = None \<longleftrightarrow> (\<forall>d \<in> set coll. pcId d \<noteq> js_trim p)"
    using findOne_latest_None[of scan p] unfolding s .
  have m: "\<forall>d. findOne_latest scan p = Some d \<longrightarrow>
            d \<in> set coll \<and> pcId d = js_trim p \<and>
            (\<forall>x \<in> set coll. pcId x = js_trim p \<longrightarrow> createdAt x \<le> createdAt d)"
    using findOne_latest_Some[of scan p] unfolding s by blast
  from r n m show ?thesis by simp
qed

theorem machine_latest_witness:
  "hoursNum_of (Some ''1'') = Some 1 \<and>
   delivers
     [reading 11 ''PC-1'' 10 0, reading 12 ''PC-1'' 30 9000000, reading 13 ''PC-2'' 5 9500000]
     [reading 13 ''PC-2'' 5 9500000, reading 12 ''PC-1'' 30 9000000, reading 11 ''PC-1'' 10 0] \<and>
   get_systemdata 180000000
     [reading 13 ''PC-2'' 5 9500000, reading 12 ''PC-1'' 30 9000000, reading 11 ''PC-1'' 10 0]
     (Some ''PC-1'') (Some ''1'') =
     \<lparr>status = 200, payload = PcData ''PC-1'' (Some (reading 12 ''PC-1'' 30 9000000)) [] 1\<rparr> \<and>
   findOne_latest
     [reading 13 ''PC-2'' 5 9500000, reading 12 ''PC-1'' 30 9000000, reading 11 ''PC-1'' 10 0]
     ([CHR 0x20] @ ''PC-1'' @ [CHR 0xC2, CHR 0xA0]) = Some (reading 12 ''PC-1'' 30 9000000) \<and>
   findOne_latest
     [reading 13 ''PC-2'' 5 9500000, reading 12 ''PC-1'' 30 9000000, reading 11 ''PC-1'' 10 0]
     ''PC-9'' = None"
proof -
  let ?C = "[reading 11 ''PC-1'' 10 0, reading 12 ''PC-1'' 30 9000000,
             reading 13 ''PC-2'' 5 9500000]"
  let ?S = "[reading 13 ''PC-2'' 5 9500000, reading 12 ''PC-1'' 30 9000000,
             reading 11 ''PC-1'' 10 0]"
  have h: "hoursNum_of (Some ''1'') = Some 1" by (rule hoursNum_of_1)
  have v: "delivers ?C ?S" by (simp add: delivers_def)
  have l: "findOne_latest ?S ''PC-1'' = Some (reading 12 ''PC-1'' 30 9000000)"
    by (simp add: findOne_latest_def reading_def js_trim_PC1)
  have k: "findOne_latest ?S ([CHR 0x20] @ ''PC-1'' @ [CHR 0xC2, CHR 0xA0]) =
      Some (reading 12 ''PC-1'' 30 9000000)"
    unfolding findOne_latest_def js_trim_padded by (simp add: reading_def)
  have a: "getHistoricalData 180000000 ?S ''PC-1'' 1 = []"
    by (simp add: getHistoricalData_def reading_def js_trim_PC1)
  have "\<exists>hist. get_systemdata 180000000 ?S (Some ''PC-1'') (Some ''1'') =
          \<lparr>status = 200, payload = PcData ''PC-1'' (findOne_latest ?S ''PC-1'') hist 1\<rparr>"
    using machine_latest [of "Some ''1''" 1 "''PC-1''" ?C ?S 180000000] h v by simp
  then have g: "get_systemdata 180000000 ?S (Some ''PC-1'') (Some ''1'') =
      \<lparr>status = 200, payload = PcData ''PC-1'' (Some (reading 12 ''PC-1'' 30 9000000)) [] 1\<rparr>"
    by (simp add: get_systemdata_def h l a)
  have "\<forall>d \<in> set ?C. pcId d \<noteq> js_trim ''PC-9''"
    unfolding js_trim_PC9 by (simp add: reading_def)
  then have n: "findOne_latest ?S ''PC-9'' = None"
    using machine_latest [of "Some ''1''" 1 "''PC-9''" ?C ?S 180000000] h v by simp
  from h v g k n show ?thesis by blast
qed

subsection \<open>The window of the overview\<close>

text \<open>
  C7, as claimed: with no \<open>pcId\<close> and a valid \<open>hours = h\<close>, the overview is computed
  over \<open>allWithinWindow h\<close>. It is not: with \<open>hours = 1\<close> and a single document two
  hours old, the overview of the response averages that document, whereas the window
  of one hour is empty.
\<close>

theorem overview_window_counterexample:
  "hoursNum_of (Some ''1'') = Some 1 \<and>
   get_systemdata 7200000 [reading 11 ''PC-1'' 50 0] None (Some ''1'') =
     \<lparr>status = 200,
      payload = AllData [reading 11 ''PC-1'' 50 0]
                  \<lparr>avgCpu = 50, avgRam = 50, avgDisk = 50, totalPCs = 1\<rparr> ''24 hours''\<rparr> \<and>
   overview_of (allWithinWindow 7200000 1 [reading 11 ''PC-1'' 50 0]) =
     \<lparr>avgCpu = 0, avgRam = 0, avgDisk = 0, totalPCs = 0\<rparr>"
proof -
  have r: "round2 50 = 50" by (simp add: round2_def round_half_even_def)
  have g: "get_systemdata 7200000 [reading 11 ''PC-1'' 50 0] None (Some ''1'') =
     \<lparr>status = 200,
      payload = AllData [reading 11 ''PC-1'' 50 0]
                  \<lparr>avgCpu = 50, avgRam = 50, avgDisk = 50, totalPCs = 1\<rparr> ''24 hours''\<rparr>"
    by (simp add: get_systemdata_def hoursNum_of_1 getLatestData_def sort_stage_def
        getOverviewStats_def group_project_def overview_or_default_def avg_def reading_def r)
  have o: "overview_of (allWithinWindow 7200000 1 [reading 11 ''PC-1'' 50 0]) =
     \<lparr>avgCpu = 0, avgRam = 0, avgDisk = 0, totalPCs = 0\<rparr>"
    by (simp add: overview_of_def allWithinWindow_def hours_ms_def mean_def reading_def
        round2_zero)
  from hoursNum_of_1 g o show ?thesis by blast
qed

text \<open>
  C7, amended: with no \<open>pcId\<close> and any valid \<open>hours\<close> (1 to 168), the overview of the
  response is computed over the documents of the last 24 hours, whatever \<open>hours\<close> is,
  and the response reports the time range \<open>24 hours\<close>.
\<close>

theorem overview_fixed_window:
  "hoursNum_of q = Some h \<Longrightarrow> 1 \<le> h \<Longrightarrow> h \<le> 168 \<Longrightarrow>
   get_systemdata now coll None q =
     \<lparr>status = 200,
      payload = AllData (getLatestData coll) (overview_of (allWithinWindow now 24 coll))
                  ''24 hours''\<rparr>"
  by (simp add: get_systemdata_all overview_eq)

theorem overview_fixed_window_witness:
  "hoursNum_of (Some ''168'') = Some 168 \<and>
   get_systemdata 180000000 [reading 11 ''PC-1'' 50 0, reading 12 ''PC-2'' 25 100000000] None
     (Some ''168'') =
     \<lparr>status = 200,
      payload = AllData [reading 11 ''PC-1'' 50 0, reading 12 ''PC-2'' 25 100000000]
                  \<lparr>avgCpu = 25, avgRam = 25, avgDisk = 25, totalPCs = 1\<rparr> ''24 hours''\<rparr> \<and>
   overview_of (allWithinWindow 180000000 168 [reading 11 ''PC-1'' 50 0, reading 12 ''PC-2'' 25 100000000]) =
     \<lparr>avgCpu = 75 / 2, avgRam = 75 / 2, avgDisk = 75 / 2, totalPCs = 2\<rparr>"
proof -
  let ?C = "[reading 11 ''PC-1'' 50 0, reading 12 ''PC-2'' 25 100000000]"
  have r: "round2 25 = 25" by (simp add: round2_def round_half_even_def)
  have r2: "round2 (75 / 2) = 75 / 2" by (simp add: round2_def round_half_even_def)
  have l: "getLatestData ?C = ?C"
    by (simp add: getLatestData_def sort_stage_def reading_def)
  have o: "overview_of (allWithinWindow 180000000 24 ?C) =
     \<lparr>avgCpu = 25, avgRam = 25, avgDisk = 25, totalPCs = 1\<rparr>"
    by (simp add: overview_of_def allWithinWindow_def hours_ms_def mean_def reading_def r)
  have o2: "overview_of (allWithinWindow 180000000 168 ?C) =
     \<lparr>avgCpu = 75 / 2, avgRam = 75 / 2, avgDisk = 75 / 2, totalPCs = 2\<rparr>"
    by (simp add: overview_of_def allWithinWindow_def hours_ms_def mean_def reading_def r2)
  have g: "get_systemdata 180000000 ?C None (Some ''168'') =
     \<lparr>status = 200,
      payload = AllData ?C \<lparr>avgCpu = 25, avgRam = 25, avgDisk = 25, totalPCs = 1\<rparr>
                  ''24 hours''\<rparr>"
    using overview_fixed_window [of "Some ''168''" 168 180000000 ?C] hoursNum_of_168
    unfolding l o by simp
  from hoursNum_of_168 g o2 show ?thesis by blast
qed

subsection \<open>Ties in the latest document\<close>











subsection \<open>Validation of a POST\<close>

lemma post_missing:
  "missing_fields b \<Longrightarrow>
   post_systemdata oid now b coll =
     (\<lparr>status = 400,
       payload = Message ''Missing required fields: pcId, cpu, ram, disk, os, uptime''\<rparr>, coll)"
  by (simp add: post_systemdata_def bad_request_def)

lemma post_invalid:
  "\<not> missing_fields b \<Longrightarrow> invalid_ranges b \<Longrightarrow>
   post_systemdata oid now b coll =
     (\<lparr>status = 400,
       payload = Message ''Invalid data ranges: cpu/ram/disk (0-100), uptime (>=0)''\<rparr>, coll)"
  by (simp add: post_systemdata_def bad_request_def)

lemma missing_fields_Val:
  "missing_fields \<lparr>body_pcId = Val p, body_cpu = Val c, body_ram = Val r, body_disk = Val k,
                   body_os = Val s, body_uptime = Val u\<rparr> \<longleftrightarrow> p = [] \<or> s = []"
  by (simp add: missing_fields_def js_not_def is_undefined_def)

lemma invalid_ranges_Val:
  "invalid_ranges \<lparr>body_pcId = Val p, body_cpu = Val c, body_ram = Val r, body_disk = Val k,
                   body_os = Val s, body_uptime = Val u\<rparr> \<longleftrightarrow>
     c < 0 \<or> 100 < c \<or> r < 0 \<or> 100 < r \<or> k < 0 \<or> 100 < k \<or> u < 0"
  by (simp add: invalid_ranges_def js_lt_def js_gt_def to_number_def)

lemma post_accept:
  assumes "js_trim p \<noteq> []" "s \<noteq> []" "0 \<le> c" "c \<le> 100" "0 \<le> r" "r \<le> 100"
    "0 \<le> k" "k \<le> 100" "0 \<le> u"
  shows "post_systemdata oid now
           \<lparr>body_pcId = Val p, body_cpu = Val c, body_ram = Val r, body_disk = Val k,
            body_os = Val s, body_uptime = Val u\<rparr> coll =
         (\<lparr>status = 201, payload = Saved oid (js_trim p) now\<rparr>,
          coll @ [\<lparr>doc_id = oid, pcId = js_trim p, cpu = c, ram = r, disk = k, os = s,
                   uptime = u, createdAt = now, updatedAt = now\<rparr>])"
proof -
  let ?b = "\<lparr>body_pcId = Val p, body_cpu = Val c, body_ram = Val r, body_disk = Val k,
             body_os = Val s, body_uptime = Val u\<rparr>"
  have m: "\<not> missing_fields ?b"
    using assms(1,2) js_trim_nonempty[of p] by (simp only: missing_fields_Val) blast
  have i: "\<not> invalid_ranges ?b"
    using assms by (simp only: invalid_ranges_Val) linarith
  have n: "new_doc oid now ?b =
      Some \<lparr>doc_id = oid, pcId = js_trim p, cpu = c, ram = r, disk = k, os = s,
            uptime = u, createdAt = now, updatedAt = now\<rparr>"
    using assms by (simp add: new_doc_def valid_string_def valid_number_def)
  show ?thesis
    by (simp add: post_systemdata_def m i n)
qed

lemma post_report:
  assumes "js_trim p = p" "p \<noteq> []" "0 \<le> c" "c \<le> 100"
  shows "post_systemdata i t (report p c) coll =
           (\<lparr>status = 201, payload = Saved i p t\<rparr>, coll @ [reading i p c t])"
  using assms post_accept [of p "''Linux''" c c c 3600 i t coll]
  by (simp add: report_def reading_def)

lemma post_blank_pcId:
  assumes "p \<noteq> []" "js_trim p = []" "s \<noteq> []" "0 \<le> c" "c \<le> 100" "0 \<le> r" "r \<le> 100"
    "0 \<le> k" "k \<le> 100" "0 \<le> u"
  shows "post_systemdata oid now
           \<lparr>body_pcId = Val p, body_cpu = Val c, body_ram = Val r, body_disk = Val k,
            body_os = Val s, body_uptime = Val u\<rparr> coll =
         (\<lparr>status = 500, payload = ServerError ValidationError\<rparr>, coll)"
proof -
  let ?b = "\<lparr>body_pcId = Val p, body_cpu = Val c, body_ram = Val r, body_disk = Val k,
             body_os = Val s, body_uptime = Val u\<rparr>"
  have m: "\<not> missing_fields ?b"
    using assms(1,3) by (simp only: missing_fields_Val) blast
  have i: "\<not> invalid_ranges ?b"
    using assms by (simp only: invalid_ranges_Val) linarith
  have n: "new_doc oid now ?b = None"
    using assms(2) by (simp add: new_doc_def valid_string_def)
  show ?thesis
    by (simp add: post_systemdata_def m i n server_error_def)
qed

text \<open>
  C5. A POST in which any of the six fields is absent is answered 400 with the
  message about missing fields; a POST carrying all six fields in which \<open>cpu\<close>, \<open>ram\<close>
  or \<open>disk\<close> lies outside 0 to 100, or \<open>uptime\<close> is negative, is answered 400 with the
  message about data ranges; neither stores anything. A POST whose \<open>pcId\<close> is more than
  white space and whose percentages lie in 0 to 100, the bounds 0 and 100 included,
  with \<open>uptime\<close> not negative, is answered 201 and its document, with the \<open>pcId\<close>
  trimmed, is appended to the collection.
\<close>

theorem ingestion_validation:
  "((body_pcId b = Absent \<or> body_cpu b = Absent \<or> body_ram b = Absent \<or>
     body_disk b = Absent \<or> body_os b = Absent \<or> body_uptime b = Absent) \<longrightarrow>
      post_systemdata oid now b coll =
        (\<lparr>status = 400,
          payload = Message ''Missing required fields: pcId, cpu, ram, disk, os, uptime''\<rparr>,
         coll)) \<and>
   (p \<noteq> [] \<and> s \<noteq> [] \<and>
    (c < 0 \<or> 100 < c \<or> r < 0 \<or> 100 < r \<or> k < 0 \<or> 100 < k \<or> u < 0) \<longrightarrow>
      post_systemdata oid now
        \<lparr>body_pcId = Val p, body_cpu = Val c, body_ram = Val r, body_disk = Val k,
         body_os = Val s, body_uptime = Val u\<rparr> coll =
        (\<lparr>status = 400,
          payload = Message ''Invalid data ranges: cpu/ram/disk (0-100), uptime (>=0)''\<rparr>,
         coll)) \<and>
   (js_trim p \<noteq> [] \<and> s \<noteq> [] \<and> 0 \<le> c \<and> c \<le> 100 \<and> 0 \<le> r \<and> r \<le> 100 \<and>
    0 \<le> k \<and> k \<le> 100 \<and> 0 \<le> u \<longrightarrow>
      post_systemdata oid now
        \<lparr>body_pcId = Val p, body_cpu = Val c, body_ram = Val r, body_disk = Val k,
         body_os = Val s, body_uptime = Val u\<rparr> coll =
        (\<lparr>status = 201, payload = Saved oid (js_trim p) now\<rparr>,
         coll @ [\<lparr>doc_id = oid, pcId = js_trim p, cpu = c, ram = r, disk = k, os = s,
                  uptime = u, createdAt = now, updatedAt = now\<rparr>]))"
proof (intro conjI impI)
  assume "body_pcId b = Absent \<or> body_cpu b = Absent \<or> body_ram b = Absent \<or>
     body_disk b = Absent \<or> body_os b = Absent \<or> body_uptime b = Absent"
  then have "missing_fields b"
    by (auto simp: missing_fields_def js_not_def is_undefined_def)
  then show "post_systemdata oid now b coll =
        (\<lparr>status = 400,
          payload = Message ''Missing required fields: pcId, cpu, ram, disk, os, uptime''\<rparr>,
         coll)"
    by (rule post_missing)
next
  let ?b = "\<lparr>body_pcId = Val p, body_cpu = Val c, body_ram = Val r, body_disk = Val k,
             body_os = Val s, body_uptime = Val u\<rparr>"
  assume a: "p \<noteq> [] \<and> s \<noteq> [] \<and>
    (c < 0 \<or> 100 < c \<or> r < 0 \<or> 100 < r \<or> k < 0 \<or> 100 < k \<or> u < 0)"
  then have m: "\<not> missing_fields ?b" by (simp only: missing_fields_Val) blast
  from a have i: "invalid_ranges ?b" by (simp only: invalid_ranges_Val)
  from m i show "post_systemdata oid now ?b coll =
        (\<lparr>status = 400,
          payload = Message ''Invalid data ranges: cpu/ram/disk (0-100), uptime (>=0)''\<rparr>,
         coll)"
    by (rule post_invalid)
next
  assume "js_trim p \<noteq> [] \<and> s \<noteq> [] \<and> 0 \<le> c \<and> c \<le> 100 \<and> 0 \<le> r \<and> r \<le> 100 \<and>
    0 \<le> k \<and> k \<le> 100 \<and> 0 \<le> u"
  then show "post_systemdata oid now
        \<lparr>body_pcId = Val p, body_cpu = Val c, body_ram = Val r, body_disk = Val k,
         body_os = Val s, body_uptime = Val u\<rparr> coll =
        (\<lparr>status = 201, payload = Saved oid (js_trim p) now\<rparr>,
         coll @ [\<lparr>doc_id = oid, pcId = js_trim p, cpu = c, ram = r, disk = k, os = s,
                  uptime = u, createdAt = now, updatedAt = now\<rparr>])"
    using post_accept by blast
qed

theorem ingestion_validation_witness:
  "post_systemdata 11 1000 ((report ''PC-1'' 50)\<lparr>body_cpu := Val 101\<rparr>) [] =
     (\<lparr>status = 400,
       payload = Message ''Invalid data ranges: cpu/ram/disk (0-100), uptime (>=0)''\<rparr>, []) \<and>
   post_systemdata 11 1000 ((report ''PC-1'' 50)\<lparr>body_cpu := Val (- 1)\<rparr>) [] =
     (\<lparr>status = 400,
       payload = Message ''Invalid data ranges: cpu/ram/disk (0-100), uptime (>=0)''\<rparr>, []) \<and>
   post_systemdata 11 1000 ((report ''PC-1'' 50)\<lparr>body_pcId := Absent\<rparr>) [] =
     (\<lparr>status = 400,
       payload = Message ''Missing required fields: pcId, cpu, ram, disk, os, uptime''\<rparr>, []) \<and>
   post_systemdata 11 1000 ((report ''PC-1'' 50)\<lparr>body_uptime := Absent\<rparr>) [] =
     (\<lparr>status = 400,
       payload = Message ''Missing required fields: pcId, cpu, ram, disk, os, uptime''\<rparr>, []) \<and>
   post_systemdata 11 1000 (report ''PC-1'' 0) [] =
     (\<lparr>status = 201, payload = Saved 11 ''PC-1'' 1000\<rparr>, [reading 11 ''PC-1'' 0 1000]) \<and>
   post_systemdata 12 2000 (report ''PC-1'' 100) [reading 11 ''PC-1'' 0 1000] =
     (\<lparr>status = 201, payload = Saved 12 ''PC-1'' 2000\<rparr>,
      [reading 11 ''PC-1'' 0 1000, reading 12 ''PC-1'' 100 2000]) \<and>
   post_systemdata 13 3000
     \<lparr>body_pcId = Val (''PC-1'' @ [CHR 0xC2, CHR 0xA0]), body_cpu = Val 100,
      body_ram = Val 100, body_disk = Val 100, body_os = Val ''Linux'',
      body_uptime = Val 3600\<rparr> [] =
     (\<lparr>status = 201, payload = Saved 13 ''PC-1'' 3000\<rparr>, [reading 13 ''PC-1'' 100 3000]) \<and>
   post_systemdata 13 3000
     \<lparr>body_pcId = Val [CHR 0xC2, CHR 0xA0], body_cpu = Val 100,
      body_ram = Val 100, body_disk = Val 100, body_os = Val ''Linux'',
      body_uptime = Val 3600\<rparr> [] =
     (\<lparr>status = 500, payload = ServerError ValidationError\<rparr>, [])"
proof -
  note t = js_trim_PC1
  have g: "post_systemdata 13 3000
     \<lparr>body_pcId = Val (''PC-1'' @ [CHR 0xC2, CHR 0xA0]), body_cpu = Val 100,
      body_ram = Val 100, body_disk = Val 100, body_os = Val ''Linux'',
      body_uptime = Val 3600\<rparr> [] =
     (\<lparr>status = 201, payload = Saved 13 ''PC-1'' 3000\<rparr>, [reading 13 ''PC-1'' 100 3000])"
    using ingestion_validation [where p = "''PC-1'' @ [CHR 0xC2, CHR 0xA0]" and s = "''Linux''"
        and c = 100 and r = 100 and k = 100 and u = 3600 and oid = 13 and now = 3000
        and coll = "[]", unfolded js_trim_PC1_nbsp]
    by (simp add: reading_def)
  have z: "post_systemdata 13 3000
     \<lparr>body_pcId = Val [CHR 0xC2, CHR 0xA0], body_cpu = Val 100,
      body_ram = Val 100, body_disk = Val 100, body_os = Val ''Linux'',
      body_uptime = Val 3600\<rparr> [] =
     (\<lparr>status = 500, payload = ServerError ValidationError\<rparr>, [])"
    by (rule post_blank_pcId [OF _ js_trim_nbsp]) simp_all
  have a: "post_systemdata 11 1000 ((report ''PC-1'' 50)\<lparr>body_cpu := Val 101\<rparr>) [] =
     (\<lparr>status = 400,
       payload = Message ''Invalid data ranges: cpu/ram/disk (0-100), uptime (>=0)''\<rparr>, [])"
    using ingestion_validation [where p = "''PC-1''" and s = "''Linux''" and c = 101
        and r = 50 and k = 50 and u = 3600 and oid = 11 and now = 1000 and coll = "[]"]
    by (simp add: report_def)
  have b: "post_systemdata 11 1000 ((report ''PC-1'' 50)\<lparr>body_cpu := Val (- 1)\<rparr>) [] =
     (\<lparr>status = 400,
       payload = Message ''Invalid data ranges: cpu/ram/disk (0-100), uptime (>=0)''\<rparr>, [])"
    using ingestion_validation [where p = "''PC-1''" and s = "''Linux''" and c = "- 1"
        and r = 50 and k = 50 and u = 3600 and oid = 11 and now = 1000 and coll = "[]"]
    by (simp add: report_def)
  have c: "post_systemdata 11 1000 ((report ''PC-1'' 50)\<lparr>body_pcId := Absent\<rparr>) [] =
     (\<lparr>status = 400,
       payload = Message ''Missing required fields: pcId, cpu, ram, disk, os, uptime''\<rparr>, [])"
    using ingestion_validation [where b = "(report ''PC-1'' 50)\<lparr>body_pcId := Absent\<rparr>"
        and oid = 11 and now = 1000 and coll = "[]"]
    by simp
  have d: "post_systemdata 11 1000 ((report ''PC-1'' 50)\<lparr>body_uptime := Absent\<rparr>) [] =
     (\<lparr>status = 400,
       payload = Message ''Missing required fields: pcId, cpu, ram, disk, os, uptime''\<rparr>, [])"
    using ingestion_validation [where b = "(report ''PC-1'' 50)\<lparr>body_uptime := Absent\<rparr>"
        and oid = 11 and now = 1000 and coll = "[]"]
    by simp
  have e: "post_systemdata 11 1000 (report ''PC-1'' 0) [] =
     (\<lparr>status = 201, payload = Saved 11 ''PC-1'' 1000\<rparr>, [reading 11 ''PC-1'' 0 1000])"
    using ingestion_validation [where p = "''PC-1''" and s = "''Linux''" and c = 0
        and r = 0 and k = 0 and u = 3600 and oid = 11 and now = 1000 and coll = "[]"]
    by (simp add: report_def reading_def t)
  have f: "post_systemdata 12 2000 (report ''PC-1'' 100) [reading 11 ''PC-1'' 0 1000] =
     (\<lparr>status = 201, payload = Saved 12 ''PC-1'' 2000\<rparr>,
      [reading 11 ''PC-1'' 0 1000, reading 12 ''PC-1'' 100 2000])"
    using ingestion_validation [where p = "''PC-1''" and s = "''Linux''" and c = 100
        and r = 100 and k = 100 and u = 3600 and oid = 12 and now = 2000
        and coll = "[reading 11 ''PC-1'' 0 1000]"]
    by (simp add: report_def reading_def t)
  from a b c d e f g z show ?thesis by blast
qed

subsection \<open>Expiry\<close>

lemma ttl_pass_kept:
  "d \<in> set (ttl_pass s coll) \<longleftrightarrow> d \<in> set coll \<and> s - hours_ms 24 < createdAt d"
  by (auto simp: ttl_pass_def expireAfterSeconds_def hours_ms_def)

lemma ttl_pass_not_expired: "d \<in> set (ttl_pass now coll) \<Longrightarrow> \<not> expired now d"
  by (auto simp: ttl_pass_def expired_def)

lemma getHistoricalData_subset: "set (getHistoricalData now coll p h) \<subseteq> set coll"
  by (auto simp: getHistoricalData_def)

lemma getHistoricalData_cutoff:
  "d \<in> set (getHistoricalData now coll p h) \<Longrightarrow> now - hours_ms h \<le> createdAt d"
  by (simp add: getHistoricalData_def hours_ms_def)

lemma not_expired_iff: "\<not> expired now d \<longleftrightarrow> now - hours_ms 24 \<le> createdAt d"
  by (auto simp: expired_def expireAfterSeconds_def hours_ms_def)

text \<open>
  C4, as claimed: no query returns a document whose age exceeds the retention window,
  even while its deletion is pending. A document stored at time 0 survives the pass one
  second before it is 24 hours old; two seconds later it is expired and still returned
  by \<open>getLatestData\<close>, by \<open>findOne\<close> and by the history of 25 hours.
\<close>

theorem expired_returned_counterexample:
  "snd (post_systemdata 11 0 (report ''PC-1'' 10) []) = [reading 11 ''PC-1'' 10 0] \<and>
   ttl_pass 86399000 [reading 11 ''PC-1'' 10 0] = [reading 11 ''PC-1'' 10 0] \<and>
   expired 86401000 (reading 11 ''PC-1'' 10 0) \<and>
   getLatestData [reading 11 ''PC-1'' 10 0] = [reading 11 ''PC-1'' 10 0] \<and>
   findOne_latest [reading 11 ''PC-1'' 10 0] ''PC-1'' = Some (reading 11 ''PC-1'' 10 0) \<and>
   getHistoricalData 86401000 [reading 11 ''PC-1'' 10 0] ''PC-1'' 25 =
     [reading 11 ''PC-1'' 10 0]"
proof -
  note t = js_trim_PC1
  have p: "snd (post_systemdata 11 0 (report ''PC-1'' 10) []) = [reading 11 ''PC-1'' 10 0]"
    using post_accept [of "''PC-1''" "''Linux''" 10 10 10 3600 11 0 "[]"]
    by (simp add: report_def reading_def t)
  have a: "ttl_pass 86399000 [reading 11 ''PC-1'' 10 0] = [reading 11 ''PC-1'' 10 0]"
    by (simp add: ttl_pass_def expireAfterSeconds_def reading_def)
  have b: "expired 86401000 (reading 11 ''PC-1'' 10 0)"
    by (simp add: expired_def expireAfterSeconds_def reading_def)
  have c: "getLatestData [reading 11 ''PC-1'' 10 0] = [reading 11 ''PC-1'' 10 0]"
    by (simp add: getLatestData_def sort_stage_def)
  have d: "findOne_latest [reading 11 ''PC-1'' 10 0] ''PC-1'' = Some (reading 11 ''PC-1'' 10 0)"
    by (simp add: findOne_latest_def reading_def js_trim_PC1)
  have e: "getHistoricalData 86401000 [reading 11 ''PC-1'' 10 0] ''PC-1'' 25 =
     [reading 11 ''PC-1'' 10 0]"
    by (simp add: getHistoricalData_def reading_def js_trim_PC1)
  from p a b c d e show ?thesis by blast
qed

text \<open>
  C4, amended: the queries return what the collection holds. Right after a pass of the
  TTL index at the time of the query, no document returned by \<open>getLatestData\<close>, by the
  history or by \<open>findOne\<close> is expired. Whether or not a pass has run, the window of the
  overview holds no expired document, and neither does a history of at most 24 hours.
\<close>

theorem no_expired_after_ttl_pass:
  "(\<forall>d \<in> set (getLatestData (ttl_pass now coll)). \<not> expired now d) \<and>
   (\<forall>d \<in> set (getHistoricalData now (ttl_pass now coll) p h). \<not> expired now d) \<and>
   (\<forall>d. findOne_latest (ttl_pass now coll) p = Some d \<longrightarrow> \<not> expired now d) \<and>
   (\<forall>d \<in> set (allWithinWindow now 24 coll). \<not> expired now d) \<and>
   (h \<le> 24 \<longrightarrow> (\<forall>d \<in> set (getHistoricalData now coll p h). \<not> expired now d))"
proof (intro conjI ballI allI impI)
  show "\<not> expired now d" if "d \<in> set (getLatestData (ttl_pass now coll))" for d
    using that getLatestData_subset ttl_pass_not_expired by blast
  show "\<not> expired now d" if "d \<in> set (getHistoricalData now (ttl_pass now coll) p h)" for d
    using that getHistoricalData_subset ttl_pass_not_expired by blast
  show "\<not> expired now d" if "findOne_latest (ttl_pass now coll) p = Some d" for d
    using findOne_latest_Some[OF that] ttl_pass_not_expired by blast
  show "\<not> expired now d" if "d \<in> set (allWithinWindow now 24 coll)" for d
    using that by (simp add: allWithinWindow_def not_expired_iff)
  show "\<not> expired now d" if "h \<le> 24" "d \<in> set (getHistoricalData now coll p h)" for d
  proof -
    have "now - hours_ms h \<le> createdAt d" using that(2) by (rule getHistoricalData_cutoff)
    moreover have "hours_ms h \<le> hours_ms 24" using that(1) by (simp add: hours_ms_def)
    ultimately show ?thesis by (simp add: not_expired_iff)
  qed
qed

theorem no_expired_after_ttl_pass_witness:
  "ttl_pass 86401000 [reading 11 ''PC-1'' 10 0, reading 12 ''PC-1'' 20 3600000] =
     [reading 12 ''PC-1'' 20 3600000] \<and>
   reading 12 ''PC-1'' 20 3600000 \<in> set (getLatestData
     (ttl_pass 86401000 [reading 11 ''PC-1'' 10 0, reading 12 ''PC-1'' 20 3600000])) \<and>
   findOne_latest (ttl_pass 86401000 [reading 11 ''PC-1'' 10 0, reading 12 ''PC-1'' 20 3600000])
     ''PC-1'' = Some (reading 12 ''PC-1'' 20 3600000) \<and>
   reading 12 ''PC-1'' 20 3600000 \<in> set (allWithinWindow 86401000 24
     [reading 11 ''PC-1'' 10 0, reading 12 ''PC-1'' 20 3600000]) \<and>
   (24 :: int) \<le> 24 \<and>
   reading 12 ''PC-1'' 20 3600000 \<in> set (getHistoricalData 86401000
     [reading 11 ''PC-1'' 10 0, reading 12 ''PC-1'' 20 3600000] ''PC-1'' 24) \<and>
   \<not> expired 86401000 (reading 12 ''PC-1'' 20 3600000) \<and>
   expired 86401000 (reading 11 ''PC-1'' 10 0)"
proof -
  let ?C = "[reading 11 ''PC-1'' 10 0, reading 12 ''PC-1'' 20 3600000]"
  have a: "ttl_pass 86401000 ?C = [reading 12 ''PC-1'' 20 3600000]"
    by (simp add: ttl_pass_def expireAfterSeconds_def reading_def)
  have b: "reading 12 ''PC-1'' 20 3600000 \<in> set (getLatestData (ttl_pass 86401000 ?C))"
    unfolding a by (simp add: getLatestData_def sort_stage_def)
  have f: "findOne_latest (ttl_pass 86401000 ?C) ''PC-1'' = Some (reading 12 ''PC-1'' 20 3600000)"
    unfolding a by (simp add: findOne_latest_def reading_def js_trim_PC1)
  have w: "reading 12 ''PC-1'' 20 3600000 \<in> set (allWithinWindow 86401000 24 ?C)"
    by (simp add: allWithinWindow_def hours_ms_def reading_def)
  have d: "reading 12 ''PC-1'' 20 3600000 \<in> set (getHistoricalData 86401000 ?C ''PC-1'' 24)"
    by (simp add: getHistoricalData_def reading_def js_trim_PC1)
  have c: "\<not> expired 86401000 (reading 12 ''PC-1'' 20 3600000)"
    using no_expired_after_ttl_pass [of 86401000 ?C "''PC-1''" 24] d by simp
  have e: "expired 86401000 (reading 11 ''PC-1'' 10 0)"
    by (simp add: expired_def expireAfterSeconds_def reading_def)
  from a b f w d c e show ?thesis by simp
qed

end
